theory Spec2Isabelle
  imports Complex_Main "HOL-Library.Multiset"
begin

section \<open>Python values and exceptions\<close>

text \<open>
  The converter is dynamically typed: the fields of a \<open>Note\<close> and of a
  \<open>NoteCollection\<close> hold whatever value the importer or \<open>json.load\<close> put there,
  and no annotation is checked at run time. A field is therefore a \<open>pyval\<close>, the
  values that \<open>json.load\<close> can return and \<open>json.dump\<close> can write. A \<open>dict\<close> is an
  association list in insertion order; a lookup takes the first binding of a key
  (the dicts of \<open>json.load\<close> have distinct keys). A Python \<open>float\<close> is idealised as
  an exact rational number (no rounding, no infinities, no NaN), a Python \<open>int\<close>
  is an \<open>int\<close>.
\<close>

datatype pyval =
    PNone
  | PBool bool
  | PInt int
  | PFloat rat
  | PStr string
  | PList "pyval list"
  | PDict "(string \<times> pyval) list"

text \<open>The messages of \<open>TypeError\<close> that the converter can meet.\<close>

datatype type_error =
    Missing_arguments "string list"
  | Unexpected_keyword string
  | Not_a_mapping
  | Not_iterable
  | Not_subscriptable

datatype py_error =
    TypeError type_error
  | KeyError string
  | AttributeError string
  | ZeroDivisionError
  | ValueError string
  | OSError string
  | UnboundLocalError string

text \<open>Python's truth value of an object, as \<open>not\<close> and \<open>or\<close> test it.\<close>

fun truthy :: "pyval \<Rightarrow> bool" where
  "truthy PNone = False"
| "truthy (PBool b) = b"
| "truthy (PInt i) = (i \<noteq> 0)"
| "truthy (PFloat r) = (r \<noteq> 0)"
| "truthy (PStr s) = (s \<noteq> [])"
| "truthy (PList xs) = (xs \<noteq> [])"
| "truthy (PDict d) = (d \<noteq> [])"

definition dict_get :: "(string \<times> pyval) list \<Rightarrow> string \<Rightarrow> pyval \<Rightarrow> pyval" where
  "dict_get d k dflt = (case map_of d k of None \<Rightarrow> dflt | Some v \<Rightarrow> v)"

definition dict_del :: "string \<Rightarrow> (string \<times> pyval) list \<Rightarrow> (string \<times> pyval) list" where
  "dict_del k d = filter (\<lambda>kv. fst kv \<noteq> k) d"

text \<open>\<open>x.get(k, dflt)\<close>: only a dict has the method.\<close>

definition py_get :: "pyval \<Rightarrow> string \<Rightarrow> pyval \<Rightarrow> py_error + pyval" where
  "py_get x k dflt =
     (case x of
        PDict d \<Rightarrow> Inr (dict_get d k dflt)
      | _ \<Rightarrow> Inl (AttributeError ''get''))"

text \<open>
  \<open>x[k]\<close> with a string key \<open>k\<close>: a dict without the key raises \<open>KeyError\<close>, any
  other value raises a \<open>TypeError\<close> (no string index, or no subscript at all).
\<close>

definition py_getitem :: "pyval \<Rightarrow> string \<Rightarrow> py_error + pyval" where
  "py_getitem x k =
     (case x of
        PDict d \<Rightarrow> (case map_of d k of None \<Rightarrow> Inl (KeyError k) | Some v \<Rightarrow> Inr v)
      | _ \<Rightarrow> Inl (TypeError Not_subscriptable))"

text \<open>
  The items a \<open>for\<close> loop draws from a value: the elements of a list, the keys of a
  dict, the one-character strings of a string; any other value is not iterable.
\<close>

definition py_iter :: "pyval \<Rightarrow> py_error + pyval list" where
  "py_iter x =
     (case x of
        PList xs \<Rightarrow> Inr xs
      | PDict d \<Rightarrow> Inr (map (\<lambda>kv. PStr (fst kv)) d)
      | PStr s \<Rightarrow> Inr (map (\<lambda>c. PStr [c]) s)
      | _ \<Rightarrow> Inl (TypeError Not_iterable))"

section \<open>The unified data model\<close>

record Note =
  start :: pyval
  duration :: pyval
  pitch :: pyval
  velocity :: pyval
  channel :: pyval
  channel_name :: pyval

definition asdict :: "Note \<Rightarrow> (string \<times> pyval) list" where
  "asdict n =
     [(''start'', start n), (''duration'', duration n), (''pitch'', pitch n),
      (''velocity'', velocity n), (''channel'', channel n),
      (''channel_name'', channel_name n)]"

text \<open>\<open>Note.to_dict\<close>: the field dict without \<open>channel_name\<close> when that is falsy.\<close>

definition Note_to_dict :: "Note \<Rightarrow> (string \<times> pyval) list" where
  "Note_to_dict n =
     (let d = asdict n
      in if \<not> truthy (dict_get d ''channel_name'' PNone)
         then dict_del ''channel_name'' d else d)"

definition Note_fields :: "string list" where
  "Note_fields = [''start'', ''duration'', ''pitch'', ''velocity'', ''channel'', ''channel_name'']"

definition Note_required :: "string list" where
  "Note_required = [''start'', ''duration'', ''pitch'', ''velocity'']"

text \<open>
  \<open>Note(**note_data)\<close>, the generated constructor called with the entries of
  \<open>note_data\<close> as keyword arguments. CPython binds the keywords first (the first
  keyword that names no parameter raises), then reports every required parameter
  that was not given; \<open>channel\<close> and \<open>channel_name\<close> have defaults.
\<close>

definition Note_kwargs :: "pyval \<Rightarrow> py_error + Note" where
  "Note_kwargs note_data =
     (case note_data of
        PDict kw \<Rightarrow>
          (case find (\<lambda>k. k \<notin> set Note_fields) (map fst kw) of
             Some k \<Rightarrow> Inl (TypeError (Unexpected_keyword k))
           | None \<Rightarrow>
               (case (map_of kw ''start'', map_of kw ''duration'',
                      map_of kw ''pitch'', map_of kw ''velocity'') of
                  (Some s, Some d, Some p, Some v) \<Rightarrow>
                    Inr \<lparr>start = s, duration = d, pitch = p, velocity = v,
                         channel = dict_get kw ''channel'' (PInt 0),
                         channel_name = dict_get kw ''channel_name'' (PStr [])\<rparr>
                | _ \<Rightarrow>
                    Inl (TypeError (Missing_arguments
                          (filter (\<lambda>f. map_of kw f = None) Note_required)))))
      | _ \<Rightarrow> Inl (TypeError Not_a_mapping))"

record NoteCollection =
  version :: pyval
  source :: pyval
  metadata :: pyval
  "notes" :: "Note list"

definition default_metadata :: pyval where
  "default_metadata =
     PDict [(''title'', PStr []), (''bpm'', PInt 120),
            (''time_signature'', PStr ''4/4''), (''duration_seconds'', PFloat 0)]"

text \<open>
  The constructor with \<open>__post_init__\<close>; \<open>PNone\<close> for \<open>metadata\<close> stands for the
  argument left out or \<open>None\<close>. No caller passes \<open>notes\<close>, so the list starts empty.
\<close>

definition NoteCollection_init :: "pyval \<Rightarrow> pyval \<Rightarrow> pyval \<Rightarrow> NoteCollection" where
  "NoteCollection_init v s m =
     \<lparr>version = v, source = s,
      metadata = (if m = PNone then default_metadata else m),
      notes = []\<rparr>"

definition NoteCollection_to_dict :: "NoteCollection \<Rightarrow> pyval" where
  "NoteCollection_to_dict c =
     PDict [(''version'', version c), (''source'', source c),
            (''metadata'', metadata c),
            (''notes'', PList (map (\<lambda>n. PDict (Note_to_dict n)) (notes c)))]"

text \<open>
  Files. \<open>save\<close> writes \<open>json.dump\<close> of the dict form; the file is modelled by the
  value it holds, since \<open>json.load\<close> reads back the value that \<open>json.dump\<close> wrote.
  A function that opens a file takes the outcome of reading it: \<open>Inl e\<close> when
  \<open>open\<close> or the parser raises \<open>e\<close>, \<open>Inr v\<close> when the file parses to \<open>v\<close>.
  The message that \<open>save\<close> prints is left out.
\<close>

definition save :: "NoteCollection \<Rightarrow> string \<Rightarrow> string \<times> pyval" where
  "save c path = (path, NoteCollection_to_dict c)"

fun load_notes :: "NoteCollection \<Rightarrow> pyval list \<Rightarrow> py_error + NoteCollection" where
  "load_notes collection [] = Inr collection"
| "load_notes collection (note_data # rest) =
     (case Note_kwargs note_data of
        Inl e \<Rightarrow> Inl e
      | Inr n \<Rightarrow> load_notes (collection\<lparr>notes := notes collection @ [n]\<rparr>) rest)"

definition load :: "py_error + pyval \<Rightarrow> py_error + NoteCollection" where
  "load file =
     (case file of Inl e \<Rightarrow> Inl e | Inr data \<Rightarrow>
     (case py_get data ''version'' (PStr ''1.0'') of Inl e \<Rightarrow> Inl e | Inr v \<Rightarrow>
     (case py_get data ''source'' (PStr ''manual'') of Inl e \<Rightarrow> Inl e | Inr s \<Rightarrow>
     (case py_get data ''metadata'' (PDict []) of Inl e \<Rightarrow> Inl e | Inr m \<Rightarrow>
     (case py_get data ''notes'' (PList []) of Inl e \<Rightarrow> Inl e | Inr ns \<Rightarrow>
     (case py_iter ns of Inl e \<Rightarrow> Inl e | Inr items \<Rightarrow>
        load_notes (NoteCollection_init v s m) items))))))"

section \<open>The MIDI importer\<close>

text \<open>
  What \<open>mido.MidiFile\<close> hands to the importer: \<open>ticks_per_beat\<close> and, per track,
  the messages in file order. A message is a note-on or a note-off (delta time,
  channel, note, velocity), a tempo change (delta time, tempo) or any other
  message (type name, delta time).
\<close>

datatype midi_msg =
    Note_on int int int int
  | Note_off int int int int
  | Set_tempo int int
  | Other_msg string int

fun msg_time :: "midi_msg \<Rightarrow> int" where
  "msg_time (Note_on t c n v) = t"
| "msg_time (Note_off t c n v) = t"
| "msg_time (Set_tempo t tp) = t"
| "msg_time (Other_msg ty t) = t"

record MidiFile =
  ticks_per_beat :: int
  tracks :: "midi_msg list list"

text \<open>
  The body of the loop over the messages of one track, on the state
  (\<open>current_time\<close>, \<open>tempo\<close>, \<open>collection.notes\<close>). Dividing by a
  \<open>ticks_per_beat\<close> of 0 raises.
\<close>

fun track_step :: "int \<Rightarrow> midi_msg \<Rightarrow> rat \<times> int \<times> Note list \<Rightarrow> py_error + (rat \<times> int \<times> Note list)" where
  "track_step tpb msg (current_time, tempo, ns) =
     (let current_time = current_time + of_int (msg_time msg)
      in case msg of
           Set_tempo t tp \<Rightarrow> Inr (current_time, tp, ns)
         | Note_on t c n v \<Rightarrow>
             if v > 0 then
               (if tpb = 0 then Inl ZeroDivisionError
                else
                  let time_seconds = current_time * (of_int tempo / 1000000) / of_int tpb;
                      velocity_norm = of_int v / 127
                  in Inr (current_time, tempo,
                          ns @ [\<lparr>start = PFloat time_seconds, duration = PFloat (1 / 4),
                                 pitch = PInt n, velocity = PFloat velocity_norm,
                                 channel = PInt c, channel_name = PStr []\<rparr>]))
             else Inr (current_time, tempo, ns)
         | _ \<Rightarrow> Inr (current_time, tempo, ns))"

fun track_loop :: "int \<Rightarrow> midi_msg list \<Rightarrow> rat \<times> int \<times> Note list \<Rightarrow> py_error + (rat \<times> int \<times> Note list)" where
  "track_loop tpb [] st = Inr st"
| "track_loop tpb (msg # rest) st =
     (case track_step tpb msg st of
        Inl e \<Rightarrow> Inl e
      | Inr st' \<Rightarrow> track_loop tpb rest st')"

text \<open>The loop over the tracks: each track starts at time 0 with tempo 500000.\<close>

fun tracks_loop :: "int \<Rightarrow> midi_msg list list \<Rightarrow> Note list \<Rightarrow> py_error + Note list" where
  "tracks_loop tpb [] ns = Inr ns"
| "tracks_loop tpb (track # rest) ns =
     (case track_loop tpb track (0, 500000, ns) of
        Inl e \<Rightarrow> Inl e
      | Inr (current_time, tempo, ns') \<Rightarrow> tracks_loop tpb rest ns')"

text \<open>
  The key of the final sort, \<open>n.start\<close>. Every note that reaches the sort was
  built by \<open>track_step\<close> and carries a float there (lemma \<open>spec_track_notes_fields\<close>
  below); the other cases only make the function total.
\<close>

fun start_seconds :: "Note \<Rightarrow> rat" where
  "start_seconds n =
     (case start n of PFloat r \<Rightarrow> r | PInt i \<Rightarrow> of_int i | _ \<Rightarrow> 0)"

text \<open>
  \<open>SynToMidConverter.from_midi_file\<close>. \<open>mido_available\<close> tells whether
  \<open>import mido\<close> succeeds (the function returns \<open>None\<close> when it does not),
  \<open>stem\<close> is \<open>midi_path.stem\<close>, \<open>metadata\<close> the optional argument (\<open>PNone\<close> when
  left out) and \<open>file\<close> the outcome of \<open>mido.MidiFile(str(midi_path))\<close>.
  \<open>list.sort\<close> is a stable sort, as \<open>sort_key\<close> is.
\<close>

definition from_midi_file :: "bool \<Rightarrow> string \<Rightarrow> pyval \<Rightarrow> py_error + MidiFile \<Rightarrow> py_error + NoteCollection option" where
  "from_midi_file mido_available stem md file =
     (if \<not> mido_available then Inr None
      else
        let collection = NoteCollection_init (PStr ''1.0'') (PStr ''syntomid'')
              (if truthy md then md
               else PDict [(''title'', PStr stem), (''bpm'', PInt 120)])
        in (case file of Inl e \<Rightarrow> Inl e | Inr mid \<Rightarrow>
           (case tracks_loop (ticks_per_beat mid) (tracks mid) (notes collection) of
              Inl e \<Rightarrow> Inl e
            | Inr ns \<Rightarrow> Inr (Some (collection\<lparr>notes := sort_key start_seconds ns\<rparr>)))))"

section \<open>The FL Studio importer\<close>

definition fl_note :: "pyval \<Rightarrow> py_error + Note" where
  "fl_note note_data =
     (case py_getitem note_data ''start'' of Inl e \<Rightarrow> Inl e | Inr s \<Rightarrow>
     (case py_getitem note_data ''duration'' of Inl e \<Rightarrow> Inl e | Inr d \<Rightarrow>
     (case py_getitem note_data ''pitch'' of Inl e \<Rightarrow> Inl e | Inr p \<Rightarrow>
     (case py_getitem note_data ''velocity'' of Inl e \<Rightarrow> Inl e | Inr v \<Rightarrow>
     (case py_get note_data ''channel'' (PInt 0) of Inl e \<Rightarrow> Inl e | Inr ch \<Rightarrow>
     (case py_get note_data ''channel_name'' (PStr []) of Inl e \<Rightarrow> Inl e | Inr cn \<Rightarrow>
        Inr \<lparr>start = s, duration = d, pitch = p, velocity = v,
             channel = ch, channel_name = cn\<rparr>))))))"

fun fl_notes :: "NoteCollection \<Rightarrow> pyval list \<Rightarrow> py_error + NoteCollection" where
  "fl_notes collection [] = Inr collection"
| "fl_notes collection (note_data # rest) =
     (case fl_note note_data of
        Inl e \<Rightarrow> Inl e
      | Inr n \<Rightarrow> fl_notes (collection\<lparr>notes := notes collection @ [n]\<rparr>) rest)"

text \<open>
  \<open>FLStudioConverter.from_json\<close>; \<open>stem\<close> is \<open>json_path.stem\<close> and \<open>file\<close> the
  outcome of opening the path and \<open>json.load\<close>.
\<close>

definition from_json :: "string \<Rightarrow> py_error + pyval \<Rightarrow> py_error + NoteCollection" where
  "from_json stem file =
     (case file of Inl e \<Rightarrow> Inl e | Inr fl_data \<Rightarrow>
     (case py_get fl_data ''bpm'' (PInt 120) of Inl e \<Rightarrow> Inl e | Inr b \<Rightarrow>
     (case py_get fl_data ''time_signature'' (PStr ''4/4'') of Inl e \<Rightarrow> Inl e | Inr ts \<Rightarrow>
     (case py_get fl_data ''duration_seconds'' (PFloat 0) of Inl e \<Rightarrow> Inl e | Inr ds \<Rightarrow>
     (case py_get fl_data ''notes'' (PList []) of Inl e \<Rightarrow> Inl e | Inr ns \<Rightarrow>
     (case py_iter ns of Inl e \<Rightarrow> Inl e | Inr items \<Rightarrow>
        fl_notes
          (NoteCollection_init (PStr ''1.0'') (PStr ''fl_studio'')
             (PDict [(''title'', PStr stem), (''bpm'', b),
                     (''time_signature'', ts), (''duration_seconds'', ds)]))
          items))))))"

section \<open>The entry point\<close>

text \<open>The suffix test of the entry point lowers ASCII letters.\<close>

definition lower_char :: "char \<Rightarrow> char" where
  "lower_char c =
     (case map_of (zip ''ABCDEFGHIJKLMNOPQRSTUVWXYZ'' ''abcdefghijklmnopqrstuvwxyz'') c of
        None \<Rightarrow> c
      | Some l \<Rightarrow> l)"

definition lower :: "string \<Rightarrow> string" where
  "lower s = map lower_char s"

text \<open>
  The entry point. \<open>argparse\<close> admits three values for \<open>--source\<close>; a path is
  used through its stem and suffix only; \<open>--title\<close> and \<open>--output\<close> may be absent.
\<close>

datatype source_choice = Syntomid | Fl_studio | Auto

record path =
  path_stem :: string
  path_suffix :: string

record args =
  arg_input :: path
  arg_output :: "string option"
  arg_source :: source_choice
  arg_title :: "string option"
  arg_bpm :: int

text \<open>
  What a run finds outside the program: whether the input path exists, whether
  \<open>mido\<close> can be imported, and what reading the input as MIDI or as JSON yields.
\<close>

record env =
  input_exists :: bool
  mido_available :: bool
  midi_file :: "py_error + MidiFile"
  json_file :: "py_error + pyval"

text \<open>The three stages of \<open>main\<close>: choose the source, convert, save. Printing is left out.\<close>

definition detect_source :: "args \<Rightarrow> source_choice option" where
  "detect_source a =
     (case arg_source a of
        Auto \<Rightarrow>
          if lower (path_suffix (arg_input a)) = ''.mid'' then Some Syntomid
          else if lower (path_suffix (arg_input a)) = ''.json'' then Some Fl_studio
          else None
      | s \<Rightarrow> Some s)"

definition convert :: "args \<Rightarrow> env \<Rightarrow> source_choice \<Rightarrow> py_error + NoteCollection option" where
  "convert a e src =
     (case src of
        Syntomid \<Rightarrow>
          from_midi_file (mido_available e) (path_stem (arg_input a))
            (PDict [(''title'', PStr (case arg_title a of
                                        None \<Rightarrow> path_stem (arg_input a)
                                      | Some t \<Rightarrow> if t = [] then path_stem (arg_input a) else t)),
                    (''bpm'', PInt (arg_bpm a))])
            (midi_file e)
      | Fl_studio \<Rightarrow>
          (case from_json (path_stem (arg_input a)) (json_file e) of
             Inl err \<Rightarrow> Inl err
           | Inr c \<Rightarrow> Inr (Some c))
      | Auto \<Rightarrow> Inl (UnboundLocalError ''collection''))"

definition main :: "args \<Rightarrow> env \<Rightarrow> py_error + int \<times> (string \<times> pyval) option" where
  "main a e =
     (if \<not> input_exists e then Inr (1, None)
      else
        (case detect_source a of
           None \<Rightarrow> Inr (1, None)
         | Some src \<Rightarrow>
             (case convert a e src of
                Inl err \<Rightarrow> Inl err
              | Inr None \<Rightarrow> Inr (1, None)
              | Inr (Some collection) \<Rightarrow>
                  Inr (0, Some (save collection
                                  (case arg_output a of
                                     None \<Rightarrow> path_stem (arg_input a) @ ''.json''
                                   | Some out \<Rightarrow> if out = [] then path_stem (arg_input a) @ ''.json'' else out))))))"

section \<open>Reference definitions for the MIDI importer\<close>

text \<open>
  The importer described without its loop state, to compare the loops with. A
  message emits a note when it is a note-on with a positive velocity.
\<close>

definition emits :: "midi_msg \<Rightarrow> bool" where
  "emits m = (case m of Note_on t c n v \<Rightarrow> v > 0 | _ \<Rightarrow> False)"

text \<open>The tempo values that the tempo-set events of a message list carry, in order.\<close>

fun tempo_changes :: "midi_msg list \<Rightarrow> int list" where
  "tempo_changes [] = []"
| "tempo_changes (Set_tempo t tp # ms) = tp # tempo_changes ms"
| "tempo_changes (m # ms) = tempo_changes ms"

text \<open>
  The tick position of message \<open>i\<close> of a track: the delta times of the messages
  up to and including it, added up from 0. The tempo in force there: that of the
  last tempo-set event before it in the same track, 500000 when there is none.
\<close>

definition spec_ticks :: "midi_msg list \<Rightarrow> nat \<Rightarrow> int" where
  "spec_ticks msgs i = sum_list (map msg_time (take (Suc i) msgs))"

definition spec_tempo :: "midi_msg list \<Rightarrow> nat \<Rightarrow> int" where
  "spec_tempo msgs i = last (500000 # tempo_changes (take i msgs))"

text \<open>
  The note that message \<open>i\<close> of a track stands for (none unless it emits), with
  \<open>start = ticks * (tempo / 1000000) / ticks_per_beat\<close>, and the notes of a
  whole track in message order.
\<close>

definition spec_note :: "int \<Rightarrow> midi_msg list \<Rightarrow> nat \<Rightarrow> Note list" where
  "spec_note tpb msgs i =
     (case msgs ! i of
        Note_on t c n v \<Rightarrow>
          if v > 0 then
            [\<lparr>start = PFloat (of_int (spec_ticks msgs i) * (of_int (spec_tempo msgs i) / 1000000) / of_int tpb),
              duration = PFloat (1 / 4), pitch = PInt n,
              velocity = PFloat (of_int v / 127), channel = PInt c,
              channel_name = PStr []\<rparr>]
          else []
      | _ \<Rightarrow> [])"

definition spec_track_notes :: "int \<Rightarrow> midi_msg list \<Rightarrow> Note list" where
  "spec_track_notes tpb msgs = concat (map (spec_note tpb msgs) [0..<length msgs])"

text \<open>
  \<open>mido\<close> checks the data bytes of every message it builds or reads: note and
  velocity lie in 0..127, the channel in 0..15.
\<close>

fun valid_msg :: "midi_msg \<Rightarrow> bool" where
  "valid_msg (Note_on t c n v) = (0 \<le> c \<and> c \<le> 15 \<and> 0 \<le> n \<and> n \<le> 127 \<and> 0 \<le> v \<and> v \<le> 127)"
| "valid_msg (Note_off t c n v) = (0 \<le> c \<and> c \<le> 15 \<and> 0 \<le> n \<and> n \<le> 127 \<and> 0 \<le> v \<and> v \<le> 127)"
| "valid_msg m = True"

text \<open>The attributes \<open>msg.velocity\<close>, \<open>msg.note\<close> and \<open>msg.channel\<close> of a note message.\<close>

fun raw_velocity :: "midi_msg \<Rightarrow> int" where
  "raw_velocity (Note_on t c n v) = v"
| "raw_velocity (Note_off t c n v) = v"
| "raw_velocity m = 0"

fun raw_note :: "midi_msg \<Rightarrow> int" where
  "raw_note (Note_on t c n v) = n"
| "raw_note (Note_off t c n v) = n"
| "raw_note m = 0"

fun raw_channel :: "midi_msg \<Rightarrow> int" where
  "raw_channel (Note_on t c n v) = c"
| "raw_channel (Note_off t c n v) = c"
| "raw_channel m = 0"

text \<open>Two sample files.\<close>

definition two_tracks_mid :: MidiFile where
  "two_tracks_mid =
     \<lparr>ticks_per_beat = 480,
      tracks = [[Note_on 0 0 64 0, Set_tempo 0 250000, Note_on 960 0 60 100, Note_off 10 0 60 64],
                [Other_msg ''track_name'' 0, Note_on 480 1 62 127, Note_on 0 2 65 1]]\<rparr>"

definition song_mid :: MidiFile where
  "song_mid = \<lparr>ticks_per_beat = 480, tracks = [[Set_tempo 0 500000, Note_on 480 0 60 100]]\<rparr>"

section \<open>Reference definitions for stored records\<close>

text \<open>
  A stored record is complete when it is a mapping that holds the four fields
  without a default, and has known keys when it is a mapping whose keys all name
  fields of \<open>Note\<close>. \<open>record_note\<close> is the note whose fields are the stored values,
  with \<open>channel\<close> 0 and the empty \<open>channel_name\<close> where the record has none; it is
  meant for complete records.
\<close>

definition record_fields :: "pyval \<Rightarrow> (string \<times> pyval) list" where
  "record_fields r = (case r of PDict kw \<Rightarrow> kw | _ \<Rightarrow> [])"

definition complete_record :: "pyval \<Rightarrow> bool" where
  "complete_record r =
     (case r of
        PDict kw \<Rightarrow> list_all (\<lambda>f. map_of kw f \<noteq> None) Note_required
      | _ \<Rightarrow> False)"



definition record_note :: "pyval \<Rightarrow> Note" where
  "record_note r =
     (let kw = record_fields r
      in \<lparr>start = dict_get kw ''start'' PNone, duration = dict_get kw ''duration'' PNone,
          pitch = dict_get kw ''pitch'' PNone, velocity = dict_get kw ''velocity'' PNone,
          channel = dict_get kw ''channel'' (PInt 0),
          channel_name = dict_get kw ''channel_name'' (PStr [])\<rparr>)"

text \<open>Sample inputs.\<close>

definition fl_sample :: pyval where
  "fl_sample =
     PDict [(''bpm'', PInt 140),
            (''notes'', PList
               [PDict [(''start'', PInt 2), (''duration'', PInt 1), (''pitch'', PInt 64),
                       (''velocity'', PFloat (4 / 5))],
                PDict [(''start'', PInt 0), (''duration'', PFloat (1 / 2)), (''pitch'', PInt 60),
                       (''velocity'', PFloat 1), (''channel'', PInt 3),
                       (''channel_name'', PStr ''Lead'')]])]"



definition two_notes :: NoteCollection where
  "two_notes =
     \<lparr>version = PStr ''1.0'', source = PStr ''fl_studio'',
      metadata = PDict [(''title'', PStr ''roll'')],
      notes = [\<lparr>start = PInt 2, duration = PInt 1, pitch = PInt 64,
                velocity = PFloat (4 / 5), channel = PInt 0, channel_name = PStr []\<rparr>,
               \<lparr>start = PInt 0, duration = PFloat (1 / 2), pitch = PInt 60,
                velocity = PFloat 1, channel = PInt 3, channel_name = PStr ''Lead''\<rparr>]\<rparr>"

definition song_args :: args where
  "song_args =
     \<lparr>arg_input = \<lparr>path_stem = ''song'', path_suffix = ''.mid''\<rparr>, arg_output = None,
      arg_source = Auto, arg_title = None, arg_bpm = 120\<rparr>"

definition song_env :: env where
  "song_env =
     \<lparr>input_exists = True, mido_available = True, midi_file = Inr song_mid,
      json_file = Inl (ValueError ''JSONDecodeError'')\<rparr>"

section \<open>The loops of the MIDI importer\<close>

lemma track_loop_append:
  "track_loop tpb (xs @ ys) st =
     (case track_loop tpb xs st of Inl e \<Rightarrow> Inl e | Inr st' \<Rightarrow> track_loop tpb ys st')"
  by (induction xs arbitrary: st) (auto split: sum.splits)

lemma tempo_changes_append:
  "tempo_changes (xs @ ys) = tempo_changes xs @ tempo_changes ys"
  by (induction xs rule: tempo_changes.induct) auto

lemma spec_ticks_snoc_old:
  "i < length xs \<Longrightarrow> spec_ticks (xs @ [m]) i = spec_ticks xs i"
  by (simp add: spec_ticks_def)

lemma spec_tempo_snoc_old:
  "i < length xs \<Longrightarrow> spec_tempo (xs @ [m]) i = spec_tempo xs i"
  by (simp add: spec_tempo_def)

lemma spec_note_snoc_old:
  "i < length xs \<Longrightarrow> spec_note tpb (xs @ [m]) i = spec_note tpb xs i"
  unfolding spec_note_def
  by (simp add: spec_ticks_snoc_old spec_tempo_snoc_old nth_append split: midi_msg.splits)

lemma spec_track_notes_snoc:
  "spec_track_notes tpb (xs @ [m]) = spec_track_notes tpb xs @ spec_note tpb (xs @ [m]) (length xs)"
proof -
  have eq: "map (spec_note tpb (xs @ [m])) [0..<length xs] = map (spec_note tpb xs) [0..<length xs]"
    by (simp add: spec_note_snoc_old)
  show ?thesis unfolding spec_track_notes_def by (simp add: eq)
qed

lemma spec_track_notes_no_emit:
  "\<forall>m\<in>set msgs. \<not> emits m \<Longrightarrow> spec_track_notes tpb msgs = []"
proof -
  assume a: "\<forall>m\<in>set msgs. \<not> emits m"
  have "spec_note tpb msgs i = []" if "i < length msgs" for i
    using a nth_mem [OF that] by (auto simp: spec_note_def emits_def split: midi_msg.splits)
  then show ?thesis by (simp add: spec_track_notes_def)
qed

lemma track_loop_spec:
  "track_loop tpb msgs (0, 500000, ns) =
     (if tpb = 0 \<and> (\<exists>m\<in>set msgs. emits m) then Inl ZeroDivisionError
      else Inr (of_int (sum_list (map msg_time msgs)),
                last (500000 # tempo_changes msgs),
                ns @ spec_track_notes tpb msgs))"
proof (induction msgs rule: rev_induct)
  case Nil
  show ?case by (simp add: spec_track_notes_def)
next
  case (snoc m xs)
  show ?case
  proof (cases "tpb = 0 \<and> (\<exists>m\<in>set xs. emits m)")
    case True
    then show ?thesis using snoc by (simp add: track_loop_append)
  next
    case False
    then have st: "track_loop tpb xs (0, 500000, ns) =
        Inr (of_int (sum_list (map msg_time xs)), last (500000 # tempo_changes xs),
             ns @ spec_track_notes tpb xs)"
      using snoc by simp
    show ?thesis
    proof (cases m)
      case (Note_on t c n v)
      then show ?thesis using False
        by (auto simp: Let_def track_loop_append st spec_track_notes_snoc spec_note_def
              spec_ticks_def spec_tempo_def emits_def tempo_changes_append
              spec_track_notes_no_emit)
    next
      case (Note_off t c n v)
      then show ?thesis using False
        by (auto simp: Let_def track_loop_append st spec_track_notes_snoc spec_note_def
              emits_def tempo_changes_append)
    next
      case (Set_tempo t tp)
      then show ?thesis using False
        by (auto simp: Let_def track_loop_append st spec_track_notes_snoc spec_note_def
              emits_def tempo_changes_append)
    next
      case (Other_msg ty t)
      then show ?thesis using False
        by (auto simp: Let_def track_loop_append st spec_track_notes_snoc spec_note_def
              emits_def tempo_changes_append)
    qed
  qed
qed

lemma tracks_loop_spec:
  "tracks_loop tpb trks ns =
     (if tpb = 0 \<and> (\<exists>trk\<in>set trks. \<exists>m\<in>set trk. emits m) then Inl ZeroDivisionError
      else Inr (ns @ concat (map (spec_track_notes tpb) trks)))"
proof (induction trks arbitrary: ns)
  case Nil
  show ?case by simp
next
  case (Cons trk trks)
  show ?case
  proof (cases "tpb = 0 \<and> (\<exists>m\<in>set trk. emits m)")
    case True
    then show ?thesis by (auto simp: track_loop_spec)
  next
    case False
    then have "track_loop tpb trk (0, 500000, ns) =
        Inr (of_int (sum_list (map msg_time trk)), last (500000 # tempo_changes trk),
             ns @ spec_track_notes tpb trk)"
      by (simp only: track_loop_spec if_False)
    then have "tracks_loop tpb (trk # trks) ns = tracks_loop tpb trks (ns @ spec_track_notes tpb trk)"
      by simp
    also have "\<dots> = (if tpb = 0 \<and> (\<exists>t\<in>set trks. \<exists>m\<in>set t. emits m) then Inl ZeroDivisionError
      else Inr ((ns @ spec_track_notes tpb trk) @ concat (map (spec_track_notes tpb) trks)))"
      by (rule Cons.IH)
    finally show ?thesis using False by auto
  qed
qed

lemma from_midi_file_spec:
  "from_midi_file True stem md (Inr mid) =
     (if ticks_per_beat mid = 0 \<and> (\<exists>trk\<in>set (tracks mid). \<exists>m\<in>set trk. emits m)
      then Inl ZeroDivisionError
      else Inr (Some \<lparr>version = PStr ''1.0'', source = PStr ''syntomid'',
                  metadata = (if truthy md then md
                              else PDict [(''title'', PStr stem), (''bpm'', PInt 120)]),
                  notes = sort_key start_seconds
                    (concat (map (spec_track_notes (ticks_per_beat mid)) (tracks mid)))\<rparr>))"
  by (cases md) (auto simp: from_midi_file_def NoteCollection_init_def tracks_loop_spec Let_def)

lemma from_midi_file_SomeD:
  assumes "from_midi_file avail stem md file = Inr (Some c)"
  shows "\<exists>mid. file = Inr mid \<and> avail
    \<and> tracks_loop (ticks_per_beat mid) (tracks mid) [] =
           Inr (concat (map (spec_track_notes (ticks_per_beat mid)) (tracks mid)))
    \<and> notes c = sort_key start_seconds
           (concat (map (spec_track_notes (ticks_per_beat mid)) (tracks mid)))"
proof -
  from assms have av: avail by (auto simp: from_midi_file_def split: if_splits)
  from assms av obtain mid where f: "file = Inr mid"
    by (cases "file") (auto simp: from_midi_file_def Let_def)
  from assms av f have ne: "\<not> (ticks_per_beat mid = 0 \<and> (\<exists>trk\<in>set (tracks mid). \<exists>m\<in>set trk. emits m))"
    by (auto simp: from_midi_file_spec split: if_splits)
  then have tl: "tracks_loop (ticks_per_beat mid) (tracks mid) [] =
           Inr (concat (map (spec_track_notes (ticks_per_beat mid)) (tracks mid)))"
    by (simp only: tracks_loop_spec if_False append_Nil)
  from assms av f ne have "notes c = sort_key start_seconds
           (concat (map (spec_track_notes (ticks_per_beat mid)) (tracks mid)))"
    by (auto simp: from_midi_file_spec split: if_splits)
  with f av tl show ?thesis by blast
qed

lemma spec_note_fields:
  "n \<in> set (spec_note tpb msgs i) \<Longrightarrow>
     duration n = PFloat (1 / 4) \<and> start n = PFloat (start_seconds n) \<and> channel_name n = PStr []"
  by (auto simp: spec_note_def split: midi_msg.splits if_splits)

lemma spec_track_notes_fields:
  "n \<in> set (spec_track_notes tpb msgs) \<Longrightarrow>
     duration n = PFloat (1 / 4) \<and> start n = PFloat (start_seconds n) \<and> channel_name n = PStr []"
  by (auto simp: spec_track_notes_def dest: spec_note_fields)

lemma song_mid_run:
  "from_midi_file True ''song'' PNone (Inr song_mid) =
     Inr (Some \<lparr>version = PStr ''1.0'', source = PStr ''syntomid'',
                metadata = PDict [(''title'', PStr ''song''), (''bpm'', PInt 120)],
                notes = [\<lparr>start = PFloat (1 / 2), duration = PFloat (1 / 4), pitch = PInt 60,
                          velocity = PFloat (100 / 127), channel = PInt 0,
                          channel_name = PStr []\<rparr>]\<rparr>)"
  by (simp add: from_midi_file_def song_mid_def NoteCollection_init_def Let_def)

lemma map_fields_spec_track_notes:
  "map (\<lambda>n. (pitch n, velocity n, channel n)) (spec_track_notes tpb msgs) =
     map (\<lambda>m. (PInt (raw_note m), PFloat (of_int (raw_velocity m) / 127), PInt (raw_channel m)))
       (filter emits msgs)"
proof (induction msgs rule: rev_induct)
  case Nil
  show ?case by (simp add: spec_track_notes_def)
next
  case (snoc m xs)
  then show ?case
    by (cases m) (simp_all add: spec_track_notes_snoc spec_note_def emits_def)
qed

lemma map_fields_concat_tracks:
  "map (\<lambda>n. (pitch n, velocity n, channel n)) (concat (map (spec_track_notes tpb) trks)) =
     map (\<lambda>m. (PInt (raw_note m), PFloat (of_int (raw_velocity m) / 127), PInt (raw_channel m)))
       (filter emits (concat trks))"
  by (induction trks) (simp_all add: map_fields_spec_track_notes)

lemma emits_velocity_range:
  "emits m \<Longrightarrow> valid_msg m \<Longrightarrow>
     (0::rat) < of_int (raw_velocity m) / 127 \<and> (of_int (raw_velocity m) / 127 :: rat) \<le> 1"
  by (cases m) (simp_all add: emits_def)

section \<open>Claims about the MIDI importer\<close>

text \<open>
  C2. With \<open>mido\<close> present and the file parsed, the importer raises
  \<open>ZeroDivisionError\<close> when \<open>ticks_per_beat\<close> is 0 and some message emits a note,
  and otherwise returns the collection whose notes are the sorted concatenation of
  the notes of each track taken alone: every track counts its ticks from 0 and
  starts with tempo 500000, a tempo-set event changes the tempo of the later
  messages of its own track only, and a note starts at
  \<open>ticks * (tempo / 1000000) / ticks_per_beat\<close>. For the file \<open>song.mid\<close> (one
  track, tempo 500000 at tick 0, note-on 60 with velocity 100 on channel 0 at tick
  480, 480 ticks per beat) the one note has start 0.5, duration 0.25, pitch 60,
  velocity 100/127 and channel 0.
\<close>

theorem from_midi_file_track_timing:
  "from_midi_file True stem md (Inr mid) =
     (if ticks_per_beat mid = 0 \<and> (\<exists>trk\<in>set (tracks mid). \<exists>m\<in>set trk. emits m)
      then Inl ZeroDivisionError
      else Inr (Some \<lparr>version = PStr ''1.0'', source = PStr ''syntomid'',
                  metadata = (if truthy md then md
                              else PDict [(''title'', PStr stem), (''bpm'', PInt 120)]),
                  notes = sort_key start_seconds
                    (concat (map (spec_track_notes (ticks_per_beat mid)) (tracks mid)))\<rparr>))
   \<and> from_midi_file True ''song'' PNone (Inr song_mid) =
     Inr (Some \<lparr>version = PStr ''1.0'', source = PStr ''syntomid'',
                metadata = PDict [(''title'', PStr ''song''), (''bpm'', PInt 120)],
                notes = [\<lparr>start = PFloat (1 / 2), duration = PFloat (1 / 4), pitch = PInt 60,
                          velocity = PFloat (100 / 127), channel = PInt 0,
                          channel_name = PStr []\<rparr>]\<rparr>)"
  using from_midi_file_spec song_mid_run by simp

theorem from_midi_file_track_timing_witness:
  "from_midi_file True ''two'' PNone (Inr two_tracks_mid) =
     Inr (Some \<lparr>version = PStr ''1.0'', source = PStr ''syntomid'',
                metadata = PDict [(''title'', PStr ''two''), (''bpm'', PInt 120)],
                notes = [\<lparr>start = PFloat (1 / 2), duration = PFloat (1 / 4), pitch = PInt 60,
                          velocity = PFloat (100 / 127), channel = PInt 0,
                          channel_name = PStr []\<rparr>,
                         \<lparr>start = PFloat (1 / 2), duration = PFloat (1 / 4), pitch = PInt 62,
                          velocity = PFloat 1, channel = PInt 1,
                          channel_name = PStr []\<rparr>,
                         \<lparr>start = PFloat (1 / 2), duration = PFloat (1 / 4), pitch = PInt 65,
                          velocity = PFloat (1 / 127), channel = PInt 2,
                          channel_name = PStr []\<rparr>]\<rparr>)"
  using from_midi_file_track_timing [of "''two''" PNone two_tracks_mid]
  by (simp add: two_tracks_mid_def emits_def spec_track_notes_def spec_note_def
        spec_ticks_def spec_tempo_def upt_rec)

text \<open>
  C8. Every note of a collection that the MIDI importer returns has the duration
  0.25, whatever the file holds: note-off events are never looked at.
\<close>

theorem from_midi_file_duration:
  assumes "from_midi_file avail stem md file = Inr (Some c)"
  shows "\<forall>n\<in>set (notes c). duration n = PFloat (1 / 4)"
proof -
  from from_midi_file_SomeD [OF assms] obtain mid :: MidiFile where
    "notes c = sort_key start_seconds
       (concat (map (spec_track_notes (ticks_per_beat mid)) (tracks mid)))"
    by auto
  then show ?thesis by (auto dest: spec_track_notes_fields)
qed

theorem from_midi_file_duration_witness:
  "\<exists>c. from_midi_file True ''song'' PNone (Inr song_mid) = Inr (Some c)
     \<and> notes c \<noteq> [] \<and> (\<forall>n\<in>set (notes c). duration n = PFloat (1 / 4))"
  using from_midi_file_duration [OF song_mid_run] song_mid_run by simp



text \<open>
  C7. The notes of a returned collection are, up to the order the sort gives
  them, exactly one note for each note-on message with a positive velocity,
  carrying that message's note number, its velocity divided by 127 and its
  channel; a note-on with velocity 0, a note-off or any other message yields no
  note; and for a file whose messages carry valid data bytes every velocity lies
  in (0, 1].
\<close>

theorem from_midi_file_velocity:
  assumes "from_midi_file avail stem md (Inr mid) = Inr (Some c)"
  shows "mset (map (\<lambda>n. (pitch n, velocity n, channel n)) (notes c)) =
         mset (map (\<lambda>m. (PInt (raw_note m), PFloat (of_int (raw_velocity m) / 127),
                           PInt (raw_channel m)))
                 (filter emits (concat (tracks mid))))
     \<and> length (notes c) = length (filter emits (concat (tracks mid)))
     \<and> ((\<forall>trk\<in>set (tracks mid). \<forall>m\<in>set trk. valid_msg m) \<longrightarrow>
          (\<forall>n\<in>set (notes c). \<exists>r. velocity n = PFloat r \<and> 0 < r \<and> r \<le> 1))"
proof -
  from from_midi_file_SomeD [OF assms] obtain mid' where
    "Inr mid = (Inr mid' :: py_error + MidiFile)"
    and "notes c = sort_key start_seconds
           (concat (map (spec_track_notes (ticks_per_beat mid')) (tracks mid')))"
    by blast
  then have ns: "notes c = sort_key start_seconds
           (concat (map (spec_track_notes (ticks_per_beat mid)) (tracks mid)))"
    by simp
  let ?f = "\<lambda>n. (pitch n, velocity n, channel n)"
  let ?g = "\<lambda>m. (PInt (raw_note m), PFloat (of_int (raw_velocity m) / 127), PInt (raw_channel m))"
  let ?ms = "filter emits (concat (tracks mid))"
  have "mset (map ?f (notes c)) =
      mset (map ?f (concat (map (spec_track_notes (ticks_per_beat mid)) (tracks mid))))"
    by (simp add: ns)
  then have m: "mset (map ?f (notes c)) = mset (map ?g ?ms)"
    by (simp only: map_fields_concat_tracks)
  have "length (map ?f (concat (map (spec_track_notes (ticks_per_beat mid)) (tracks mid)))) =
      length (map ?g ?ms)"
    by (simp only: map_fields_concat_tracks)
  then have len: "length (notes c) = length ?ms"
    by (simp add: ns)
  have rng: "\<exists>r. velocity n = PFloat r \<and> 0 < r \<and> r \<le> 1"
    if v: "\<forall>trk\<in>set (tracks mid). \<forall>m\<in>set trk. valid_msg m" and n: "n \<in> set (notes c)" for n
  proof -
    from n have "?f n \<in> set_mset (mset (map ?f (notes c)))" by simp
    then have "?f n \<in> set (map ?g ?ms)" by (simp only: m set_mset_mset)
    then obtain msg where msg: "msg \<in> set ?ms" and eq: "?f n = ?g msg" by auto
    from msg v have em: "emits msg" and va: "valid_msg msg" by auto
    from eq have "velocity n = PFloat (of_int (raw_velocity msg) / 127)" by simp
    with emits_velocity_range [OF em va] show ?thesis by blast
  qed
  from m len rng show ?thesis by blast
qed

theorem from_midi_file_velocity_witness:
  "\<exists>c. from_midi_file True ''song'' PNone (Inr song_mid) = Inr (Some c)
     \<and> (\<forall>trk\<in>set (tracks song_mid). \<forall>m\<in>set trk. valid_msg m)
     \<and> map velocity (notes c) = [PFloat (100 / 127)]
     \<and> (\<forall>n\<in>set (notes c). \<exists>r. velocity n = PFloat r \<and> 0 < r \<and> r \<le> 1)"
proof -
  have v: "\<forall>trk\<in>set (tracks song_mid). \<forall>m\<in>set trk. valid_msg m"
    by (simp add: song_mid_def)
  show ?thesis
    using from_midi_file_velocity [OF song_mid_run] song_mid_run v by simp
qed

section \<open>The loops of the FL Studio importer and of load\<close>

lemma fl_note_complete:
  "complete_record r \<Longrightarrow> fl_note r = Inr (record_note r)"
  by (cases r)
     (auto simp: complete_record_def fl_note_def record_note_def record_fields_def
        Note_required_def py_getitem_def py_get_def dict_get_def)

lemma fl_notes_complete:
  "\<forall>r\<in>set recs. complete_record r \<Longrightarrow>
     fl_notes c0 recs = Inr (c0\<lparr>notes := notes c0 @ map record_note recs\<rparr>)"
  by (induction recs arbitrary: c0) (simp_all add: fl_note_complete)









lemma load_dict:
  "load (Inr (PDict d)) =
     (case py_iter (dict_get d ''notes'' (PList [])) of
        Inl e \<Rightarrow> Inl e
      | Inr items \<Rightarrow>
          load_notes (NoteCollection_init (dict_get d ''version'' (PStr ''1.0''))
                        (dict_get d ''source'' (PStr ''manual''))
                        (dict_get d ''metadata'' (PDict []))) items)"
  by (simp add: load_def py_get_def)

lemma from_json_dict:
  "from_json stem (Inr (PDict d)) =
     (case py_iter (dict_get d ''notes'' (PList [])) of
        Inl e \<Rightarrow> Inl e
      | Inr items \<Rightarrow>
          fl_notes (NoteCollection_init (PStr ''1.0'') (PStr ''fl_studio'')
             (PDict [(''title'', PStr stem), (''bpm'', dict_get d ''bpm'' (PInt 120)),
                     (''time_signature'', dict_get d ''time_signature'' (PStr ''4/4'')),
                     (''duration_seconds'', dict_get d ''duration_seconds'' (PFloat 0))]))
            items)"
  by (simp add: from_json_def py_get_def)

lemma fl_notes_metadata:
  "fl_notes c0 items = Inr c \<Longrightarrow> metadata c = metadata c0"
  by (induction items arbitrary: c0) (auto split: sum.splits)

lemma from_json_metadata_keys:
  assumes "from_json stem file = Inr c"
  shows "\<exists>b ts ds. metadata c =
     PDict [(''title'', PStr stem), (''bpm'', b), (''time_signature'', ts),
            (''duration_seconds'', ds)]"
  using assms
  by (auto simp: from_json_def NoteCollection_init_def split: sum.splits
        dest!: fl_notes_metadata)

lemma from_midi_file_metadata:
  assumes "from_midi_file avail stem md file = Inr (Some c)"
  shows "metadata c =
     (if truthy md then md else PDict [(''title'', PStr stem), (''bpm'', PInt 120)])"
  using assms
  by (cases md)
     (auto simp: from_midi_file_def NoteCollection_init_def Let_def split: if_splits sum.splits)

lemma Note_kwargs_to_dict:
  assumes "truthy (channel_name n) \<or> channel_name n = PStr []"
  shows "Note_kwargs (PDict (Note_to_dict n)) = Inr n"
proof (cases "truthy (channel_name n)")
  case True
  then show ?thesis
    by (simp add: Note_kwargs_def Note_to_dict_def asdict_def dict_get_def dict_del_def
          Note_fields_def)
next
  case False
  with assms have "channel_name n = PStr []" by simp
  then show ?thesis
    by (simp add: Note_kwargs_def Note_to_dict_def asdict_def dict_get_def dict_del_def
          Note_fields_def)
qed

lemma Note_to_dict_channel_name:
  "map_of (Note_to_dict n) ''channel_name'' =
     (if truthy (channel_name n) then Some (channel_name n) else None)"
  by (simp add: Note_to_dict_def asdict_def dict_get_def dict_del_def)

lemma load_notes_to_dict:
  "\<forall>n\<in>set ns. truthy (channel_name n) \<or> channel_name n = PStr [] \<Longrightarrow>
     load_notes c0 (map (\<lambda>n. PDict (Note_to_dict n)) ns) = Inr (c0\<lparr>notes := notes c0 @ ns\<rparr>)"
proof (induction ns arbitrary: c0)
  case Nil
  show ?case by simp
next
  case (Cons n ns)
  from Cons.prems have "truthy (channel_name n) \<or> channel_name n = PStr []" by simp
  then have "Note_kwargs (PDict (Note_to_dict n)) = Inr n" by (rule Note_kwargs_to_dict)
  with Cons show ?case by simp
qed

lemma load_to_dict:
  assumes "\<forall>n\<in>set (notes c). truthy (channel_name n) \<or> channel_name n = PStr []"
  shows "load (Inr (NoteCollection_to_dict c)) =
     Inr \<lparr>version = version c, source = source c,
          metadata = (if metadata c = PNone then default_metadata else metadata c),
          notes = notes c\<rparr>"
  by (simp add: NoteCollection_to_dict_def load_dict dict_get_def py_iter_def
        load_notes_to_dict [OF assms] NoteCollection_init_def)

lemma convert_midi_metadata:
  assumes "convert a e Syntomid = Inr (Some c)"
  shows "\<exists>t. metadata c = PDict [(''title'', PStr t), (''bpm'', PInt (arg_bpm a))]"
  using assms by (auto simp: convert_def dest!: from_midi_file_metadata)

section \<open>Claims about the FL Studio importer\<close>

text \<open>
  C3. For a valid FL Studio input (a mapping whose \<open>notes\<close> entry is a list of
  mappings that each hold \<open>start\<close>, \<open>duration\<close>, \<open>pitch\<close> and \<open>velocity\<close>) the
  importer succeeds, the collection has as many notes as the input, and note
  \<open>i\<close> is the note built from record \<open>i\<close>: the input order is kept, nothing is sorted.
\<close>

theorem from_json_preserves_order:
  assumes "py_get fl_data ''notes'' (PList []) = Inr (PList recs)"
    and "\<forall>r\<in>set recs. complete_record r"
  shows "\<exists>c. from_json stem (Inr fl_data) = Inr c
     \<and> length (notes c) = length recs
     \<and> notes c = map record_note recs
     \<and> (\<forall>i<length recs. fl_note (recs ! i) = Inr (notes c ! i))"
proof -
  from assms(1) obtain d where d: "fl_data = PDict d"
    and ns: "dict_get d ''notes'' (PList []) = PList recs"
    by (cases fl_data) (auto simp: py_get_def)
  have "from_json stem (Inr fl_data) =
      Inr ((NoteCollection_init (PStr ''1.0'') (PStr ''fl_studio'')
             (PDict [(''title'', PStr stem), (''bpm'', dict_get d ''bpm'' (PInt 120)),
                     (''time_signature'', dict_get d ''time_signature'' (PStr ''4/4'')),
                     (''duration_seconds'', dict_get d ''duration_seconds'' (PFloat 0))]))
            \<lparr>notes := map record_note recs\<rparr>)"
    by (simp add: d from_json_dict ns py_iter_def fl_notes_complete [OF assms(2)]
          NoteCollection_init_def)
  moreover have "\<forall>i<length recs. fl_note (recs ! i) = Inr (map record_note recs ! i)"
    using assms(2) by (simp add: fl_note_complete)
  ultimately show ?thesis by simp
qed

theorem from_json_preserves_order_witness:
  "from_json ''roll'' (Inr fl_sample) =
     Inr \<lparr>version = PStr ''1.0'', source = PStr ''fl_studio'',
          metadata = PDict [(''title'', PStr ''roll''), (''bpm'', PInt 140),
                            (''time_signature'', PStr ''4/4''),
                            (''duration_seconds'', PFloat 0)],
          notes = [\<lparr>start = PInt 2, duration = PInt 1, pitch = PInt 64,
                    velocity = PFloat (4 / 5), channel = PInt 0, channel_name = PStr []\<rparr>,
                   \<lparr>start = PInt 0, duration = PFloat (1 / 2), pitch = PInt 60,
                    velocity = PFloat 1, channel = PInt 3, channel_name = PStr ''Lead''\<rparr>]\<rparr>"
proof -
  let ?recs = "[PDict [(''start'', PInt 2), (''duration'', PInt 1), (''pitch'', PInt 64),
                       (''velocity'', PFloat (4 / 5))],
                PDict [(''start'', PInt 0), (''duration'', PFloat (1 / 2)), (''pitch'', PInt 60),
                       (''velocity'', PFloat 1), (''channel'', PInt 3),
                       (''channel_name'', PStr ''Lead'')]]"
  have g: "py_get fl_sample ''notes'' (PList []) = Inr (PList ?recs)"
    by (simp add: fl_sample_def py_get_def dict_get_def)
  have v: "\<forall>r\<in>set ?recs. complete_record r"
    by (simp add: complete_record_def Note_required_def)
  show ?thesis
    using from_json_preserves_order [OF g v, of "''roll''"]
    by (simp add: from_json_dict fl_sample_def dict_get_def py_iter_def fl_note_def
          py_getitem_def py_get_def NoteCollection_init_def)
qed

text \<open>
  C9. When the top-level mapping has no \<open>notes\<close> key, the importer raises no
  error and returns a collection with an empty list of notes.
\<close>

theorem from_json_without_notes:
  assumes "map_of d ''notes'' = None"
  shows "from_json stem (Inr (PDict d)) =
     Inr \<lparr>version = PStr ''1.0'', source = PStr ''fl_studio'',
          metadata = PDict [(''title'', PStr stem), (''bpm'', dict_get d ''bpm'' (PInt 120)),
                     (''time_signature'', dict_get d ''time_signature'' (PStr ''4/4'')),
                     (''duration_seconds'', dict_get d ''duration_seconds'' (PFloat 0))],
          notes = []\<rparr>"
  using assms by (simp add: from_json_dict dict_get_def py_iter_def NoteCollection_init_def)

theorem from_json_without_notes_witness:
  "from_json ''roll'' (Inr (PDict [(''bpm'', PInt 140)])) =
     Inr \<lparr>version = PStr ''1.0'', source = PStr ''fl_studio'',
          metadata = PDict [(''title'', PStr ''roll''), (''bpm'', PInt 140),
                            (''time_signature'', PStr ''4/4''),
                            (''duration_seconds'', PFloat 0)],
          notes = []\<rparr>"
  using from_json_without_notes [of "[(''bpm'', PInt 140)]" "''roll''"]
  by (simp add: dict_get_def)

section \<open>Claims about save and load\<close>

text \<open>
  C5. For a collection whose notes all carry a non-empty (truthy) \<open>channel_name\<close>
  or the empty string, loading what \<open>save\<close> wrote succeeds and gives back the same
  list of notes, the same version and source, and the whole collection when its
  metadata is not \<open>None\<close>. A note with the empty \<open>channel_name\<close> is written without
  that key and loads with \<open>channel_name\<close> empty again; a note with a non-empty one
  is written with it.
\<close>

theorem save_load_roundtrip:
  assumes "\<forall>n\<in>set (notes c). truthy (channel_name n) \<or> channel_name n = PStr []"
  shows "(\<exists>c'. load (Inr (snd (save c path))) = Inr c' \<and> notes c' = notes c
            \<and> version c' = version c \<and> source c' = source c
            \<and> (metadata c \<noteq> PNone \<longrightarrow> c' = c))
     \<and> (\<forall>n\<in>set (notes c).
           (channel_name n = PStr [] \<longrightarrow> map_of (Note_to_dict n) ''channel_name'' = None)
         \<and> (channel_name n \<noteq> PStr [] \<longrightarrow>
               map_of (Note_to_dict n) ''channel_name'' = Some (channel_name n))
         \<and> Note_kwargs (PDict (Note_to_dict n)) = Inr n)"
proof -
  have "\<exists>c'. load (Inr (snd (save c path))) = Inr c' \<and> notes c' = notes c
            \<and> version c' = version c \<and> source c' = source c
            \<and> (metadata c \<noteq> PNone \<longrightarrow> c' = c)"
    by (simp add: save_def load_to_dict [OF assms])
  moreover have "(channel_name n = PStr [] \<longrightarrow> map_of (Note_to_dict n) ''channel_name'' = None)
         \<and> (channel_name n \<noteq> PStr [] \<longrightarrow>
               map_of (Note_to_dict n) ''channel_name'' = Some (channel_name n))
         \<and> Note_kwargs (PDict (Note_to_dict n)) = Inr n" if "n \<in> set (notes c)" for n
  proof -
    from assms that have "truthy (channel_name n) \<or> channel_name n = PStr []" by simp
    then show ?thesis
      by (auto simp: Note_to_dict_channel_name Note_kwargs_to_dict)
  qed
  ultimately show ?thesis by blast
qed

theorem save_load_roundtrip_witness:
  "load (Inr (snd (save two_notes ''out.json''))) = Inr two_notes
   \<and> map (\<lambda>n. map_of (Note_to_dict n) ''channel_name'') (notes two_notes) =
       [None, Some (PStr ''Lead'')]"
proof -
  have h: "\<forall>n\<in>set (notes two_notes). truthy (channel_name n) \<or> channel_name n = PStr []"
    by (simp add: two_notes_def)
  show ?thesis
    using save_load_roundtrip [OF h, of "''out.json''"]
    by (simp add: two_notes_def save_def NoteCollection_to_dict_def load_dict dict_get_def
          py_iter_def Note_kwargs_def Note_to_dict_def asdict_def dict_del_def Note_fields_def
          NoteCollection_init_def)
qed







section \<open>Claims about a conversion run\<close>

text \<open>
  C1. A run on \<open>song.mid\<close> with the default arguments writes \<open>song.json\<close> with a
  \<open>metadata\<close> mapping of two keys, \<open>title\<close> and \<open>bpm\<close>: \<open>time_signature\<close> and
  \<open>duration_seconds\<close> are absent, while the FL Studio importer always writes all
  four (lemma \<open>from_json_metadata_keys\<close>) and every run on a MIDI file writes
  these two only (lemma \<open>convert_midi_metadata\<close>).
\<close>

theorem main_midi_metadata:
  "main song_args song_env =
     Inr (0, Some (''song.json'',
        PDict [(''version'', PStr ''1.0''), (''source'', PStr ''syntomid''),
               (''metadata'', PDict [(''title'', PStr ''song''), (''bpm'', PInt 120)]),
               (''notes'', PList [PDict [(''start'', PFloat (1 / 2)), (''duration'', PFloat (1 / 4)),
                                        (''pitch'', PInt 60), (''velocity'', PFloat (100 / 127)),
                                        (''channel'', PInt 0)]])]))"
  by (simp add: main_def song_args_def song_env_def detect_source_def lower_def lower_char_def convert_def
        from_midi_file_def song_mid_def NoteCollection_init_def save_def NoteCollection_to_dict_def
        Note_to_dict_def asdict_def dict_get_def dict_del_def Let_def)

end
